theory Spec2Isabelle
  imports Complex_Main "HOL-Library.Sublist" "HOL-Library.Product_Lexorder" "HOL-Library.Multiset"
begin

section \<open>JavaScript values used by the break report\<close>

text \<open>
  The backend (\<^verbatim>\<open>backend/src/server.js\<close>) computes with JavaScript numbers and strings.
  A number is modelled as an exact rational or one of the three special values; the
  rounding of IEEE doubles is not modelled (the timestamps and durations of the report
  are integers of milliseconds, on which double arithmetic is exact below \<open>2^53\<close>).
  \<open>+0\<close> and \<open>-0\<close> are one value \<open>Fin 0\<close>: they compare equal and both print as \<open>0\<close>.
\<close>

datatype jsnum = NaN | PosInf | NegInf | Fin rat

fun jsNeg :: "jsnum \<Rightarrow> jsnum" where
  "jsNeg NaN = NaN"
| "jsNeg PosInf = NegInf"
| "jsNeg NegInf = PosInf"
| "jsNeg (Fin a) = Fin (- a)"

text \<open>\<^verbatim>\<open>a + b\<close> on numbers.\<close>

fun jsAdd :: "jsnum \<Rightarrow> jsnum \<Rightarrow> jsnum" where
  "jsAdd (Fin a) (Fin b) = Fin (a + b)"
| "jsAdd NaN _ = NaN"
| "jsAdd _ NaN = NaN"
| "jsAdd PosInf NegInf = NaN"
| "jsAdd NegInf PosInf = NaN"
| "jsAdd PosInf _ = PosInf"
| "jsAdd _ PosInf = PosInf"
| "jsAdd NegInf _ = NegInf"
| "jsAdd _ NegInf = NegInf"

text \<open>\<^verbatim>\<open>a - b\<close> on numbers.\<close>

definition jsSub :: "jsnum \<Rightarrow> jsnum \<Rightarrow> jsnum" where
  "jsSub a b = jsAdd a (jsNeg b)"

text \<open>\<^verbatim>\<open>a >= b\<close> and \<open>a > b\<close>: false as soon as one side is \<open>NaN\<close>.\<close>

fun jsGe :: "jsnum \<Rightarrow> jsnum \<Rightarrow> bool" where
  "jsGe (Fin a) (Fin b) = (a \<ge> b)"
| "jsGe NaN _ = False"
| "jsGe _ NaN = False"
| "jsGe PosInf _ = True"
| "jsGe _ NegInf = True"
| "jsGe _ PosInf = False"
| "jsGe NegInf _ = False"

fun jsGt :: "jsnum \<Rightarrow> jsnum \<Rightarrow> bool" where
  "jsGt (Fin a) (Fin b) = (a > b)"
| "jsGt NaN _ = False"
| "jsGt _ NaN = False"
| "jsGt _ PosInf = False"
| "jsGt NegInf _ = False"
| "jsGt PosInf _ = True"
| "jsGt _ NegInf = True"

text \<open>\<^verbatim>\<open>a !== b\<close> on numbers: \<open>NaN\<close> differs from every number, itself included.\<close>

fun jsStrictNe :: "jsnum \<Rightarrow> jsnum \<Rightarrow> bool" where
  "jsStrictNe NaN _ = True"
| "jsStrictNe _ NaN = True"
| "jsStrictNe a b = (a \<noteq> b)"

text \<open>\<^verbatim>\<open>Math.max(a, b)\<close>: \<open>NaN\<close> when an argument is \<open>NaN\<close>.\<close>

fun mathMax :: "jsnum \<Rightarrow> jsnum \<Rightarrow> jsnum" where
  "mathMax (Fin a) (Fin b) = Fin (max a b)"
| "mathMax NaN _ = NaN"
| "mathMax _ NaN = NaN"
| "mathMax PosInf _ = PosInf"
| "mathMax _ PosInf = PosInf"
| "mathMax NegInf b = b"
| "mathMax a NegInf = a"

text \<open>\<^verbatim>\<open>Math.round(x)\<close> rounds to the nearest integer, a half towards \<open>+\<infinity>\<close>;
  \<^verbatim>\<open>Math.floor(x)\<close> rounds down. Both leave the special values as they are.\<close>

fun mathRound :: "jsnum \<Rightarrow> jsnum" where
  "mathRound (Fin a) = Fin (of_int \<lfloor>a + 1 / 2\<rfloor>)"
| "mathRound v = v"

fun mathFloor :: "jsnum \<Rightarrow> jsnum" where
  "mathFloor (Fin a) = Fin (of_int \<lfloor>a\<rfloor>)"
| "mathFloor v = v"

text \<open>\<^verbatim>\<open>x / c\<close>, \<open>x * c\<close> and \<open>x % c\<close> for a finite constant \<open>c > 0\<close> (the code divides by
  \<open>60000\<close> and \<open>60\<close> and multiplies by \<open>60\<close> and \<open>1000\<close> only). The remainder has the sign of the dividend (the quotient is
  truncated towards zero), and is \<open>NaN\<close> for an infinite dividend.\<close>

fun jsDivC :: "jsnum \<Rightarrow> rat \<Rightarrow> jsnum" where
  "jsDivC (Fin a) c = Fin (a / c)"
| "jsDivC v c = v"

fun jsMulC :: "jsnum \<Rightarrow> rat \<Rightarrow> jsnum" where
  "jsMulC (Fin a) c = Fin (a * c)"
| "jsMulC v c = v"

definition truncQuot :: "rat \<Rightarrow> rat \<Rightarrow> int" where
  "truncQuot a c = (if a < 0 then - \<lfloor>(- a) / c\<rfloor> else \<lfloor>a / c\<rfloor>)"

fun jsRemC :: "jsnum \<Rightarrow> rat \<Rightarrow> jsnum" where
  "jsRemC (Fin a) c = Fin (a - c * of_int (truncQuot a c))"
| "jsRemC v c = NaN"

subsection \<open>Numbers as text\<close>

fun showNat :: "nat \<Rightarrow> string" where
  "showNat n =
     (if n < 10 then [''0123456789'' ! n]
      else showNat (n div 10) @ [''0123456789'' ! (n mod 10)])"

definition showInt :: "int \<Rightarrow> string" where
  "showInt i = (if i < 0 then CHR ''-'' # showNat (nat (- i)) else showNat (nat i))"

text \<open>A number inside a template literal (\<^verbatim>\<open>`${h}h`\<close>). Every finite number the code
  prints is the result of \<open>Math.round\<close>, \<open>Math.floor\<close> or \<open>% 60\<close> on an integer, so it is
  an integer and prints as its decimal digits.\<close>

fun numToString :: "jsnum \<Rightarrow> string" where
  "numToString NaN = ''NaN''"
| "numToString PosInf = ''Infinity''"
| "numToString NegInf = ''-Infinity''"
| "numToString (Fin a) = showInt \<lfloor>a\<rfloor>"

subsection \<open>Strings, absent values and \<open>||\<close>\<close>

text \<open>A field of a JSON object that holds a string or is absent (\<open>undefined\<close> or \<open>null\<close>)
  is a \<open>string option\<close>. The empty string is falsy, like an absent value.\<close>

definition truthy :: "string option \<Rightarrow> bool" where
  "truthy v = (case v of None \<Rightarrow> False | Some s \<Rightarrow> s \<noteq> [])"

text \<open>\<^verbatim>\<open>a || b\<close> where \<open>b\<close> may be absent too, and \<^verbatim>\<open>a || 'default'\<close>.\<close>

definition jsOr :: "string option \<Rightarrow> string option \<Rightarrow> string option" where
  "jsOr a b = (if truthy a then a else b)"

definition orDefault :: "string option \<Rightarrow> string \<Rightarrow> string" where
  "orDefault a d = (case a of None \<Rightarrow> d | Some s \<Rightarrow> if s \<noteq> [] then s else d)"

text \<open>\<^verbatim>\<open>toLowerCase\<close> and \<open>toUpperCase\<close> on the ASCII letters; other characters are kept.\<close>

definition lowerChar :: "char \<Rightarrow> char" where
  "lowerChar c =
     (case map_of (zip ''ABCDEFGHIJKLMNOPQRSTUVWXYZ'' ''abcdefghijklmnopqrstuvwxyz'') c of
        Some l \<Rightarrow> l
      | None \<Rightarrow> c)"

definition upperChar :: "char \<Rightarrow> char" where
  "upperChar c =
     (case map_of (zip ''abcdefghijklmnopqrstuvwxyz'' ''ABCDEFGHIJKLMNOPQRSTUVWXYZ'') c of
        Some u \<Rightarrow> u
      | None \<Rightarrow> c)"

definition toLowerCase :: "string \<Rightarrow> string" where
  "toLowerCase s = map lowerChar s"

definition toUpperCase :: "string \<Rightarrow> string" where
  "toUpperCase s = map upperChar s"

text \<open>\<^verbatim>\<open>s.startsWith(p)\<close>.\<close>

definition startsWith :: "string \<Rightarrow> string \<Rightarrow> bool" where
  "startsWith s p = prefix p s"

text \<open>\<^verbatim>\<open>s.replace(p, r)\<close> with a string pattern replaces the first occurrence only;
  \<^verbatim>\<open>s.replace(/_/g, ' ')\<close> replaces every underscore.\<close>

fun replaceFirst :: "string \<Rightarrow> string \<Rightarrow> string \<Rightarrow> string" where
  "replaceFirst p r [] = (if p = [] then r else [])"
| "replaceFirst p r (c # cs) =
     (if prefix p (c # cs) then r @ drop (length p) (c # cs) else c # replaceFirst p r cs)"

definition underscoresToSpaces :: "string \<Rightarrow> string" where
  "underscoresToSpaces s = map (\<lambda>c. if c = CHR ''_'' then CHR '' '' else c) s"

section \<open>Utility helpers of the backend\<close>

text \<open>
  \<^verbatim>\<open>
  const normalizeDirection = (raw) => {
    if (!raw) return { norm: 'unknown', label: 'Unknown' };
    const r = String(raw).toLowerCase();
    if (['in', 'entry', 'entrance'].includes(r)) return { norm: 'in', label: 'Inbound' };
    if (['out', 'exit', 'egress'].includes(r)) return { norm: 'out', label: 'Outbound' };
    return { norm: r, label: r.charAt(0).toUpperCase() + r.slice(1) };
  };\<close>
\<close>

definition normalizeDirection :: "string option \<Rightarrow> string \<times> string" where
  "normalizeDirection raw =
     (if \<not> truthy raw then (''unknown'', ''Unknown'')
      else let r = toLowerCase (orDefault raw []) in
        if r \<in> set [''in'', ''entry'', ''entrance''] then (''in'', ''Inbound'')
        else if r \<in> set [''out'', ''exit'', ''egress''] then (''out'', ''Outbound'')
        else (r, toUpperCase (take 1 r) @ drop 1 r))"

text \<open>
  \<^verbatim>\<open>
  const msToHMM = (ms) => {
    const totalMinutes = Math.round(ms / 60000);
    const h = Math.floor(totalMinutes / 60);
    const m = totalMinutes % 60;
    if (h > 0) return `${h}h ${m}m`;
    return `${m}m`;
  };\<close>
\<close>

definition msToHMM :: "jsnum \<Rightarrow> string" where
  "msToHMM ms =
     (let totalMinutes = mathRound (jsDivC ms 60000);
          h = mathFloor (jsDivC totalMinutes 60);
          m = jsRemC totalMinutes 60
      in if jsGt h (Fin 0) then numToString h @ ''h '' @ numToString m @ ''m''
         else numToString m @ ''m'')"

section \<open>Events\<close>

text \<open>
  A raw event of the vendor's API, with the fields the report reads. The nested
  \<open>event_info\<close> block is flattened: the code reads it as \<^verbatim>\<open>e.event_info || {}\<close> and its
  sub-objects with \<^verbatim>\<open>?.\<close>, so a missing block is a block whose fields are all absent.
\<close>

record raw_event =
  raw_event_id :: "string option"
  raw_event_type :: "string option"
  raw_timestamp :: "string option"
  raw_device_id :: "string option"
  info_doorId :: "string option"
  info_direction :: "string option"
  info_message :: "string option"
  info_userId :: "string option"
  info_userName :: "string option"
  info_siteName :: "string option"
  info_userInfo_userId :: "string option"
  info_userInfo_name :: "string option"
  info_doorInfo_name :: "string option"

text \<open>A door of the vendor's door list (\<open>site_name\<close> is \<^verbatim>\<open>door.site?.name\<close>).\<close>

record door =
  door_id :: string
  name :: "string option"
  site_name :: "string option"
  timezone :: "string option"

text \<open>
  The object built by the \<^verbatim>\<open>.map\<close> of step 3. \<open>ts\<close> is the luxon \<open>DateTime\<close>
  \<^verbatim>\<open>DateTime.fromISO(e.timestamp, { zone: 'utc' }).setZone(tz)\<close>: \<open>Some t\<close> is a valid
  instant, \<open>t\<close> milliseconds after the epoch, and \<open>None\<close> is luxon's invalid \<open>DateTime\<close>,
  which \<open>fromISO\<close> returns (it does not throw) for a text that is not ISO-8601.
\<close>

record event =
  event_id :: "string option"
  event_type :: string
  violationMessage :: "string option"
  timestampISO :: "string option"
  ts :: "int option"
  userId :: string
  userName :: string
  siteName :: string
  direction :: string
  directionLabel :: string
  doorName :: string

text \<open>\<^verbatim>\<open>dt.toMillis()\<close> is \<open>NaN\<close> on the invalid \<open>DateTime\<close>, and \<^verbatim>\<open>dt.toFormat(pattern)\<close>
  is the text \<open>Invalid DateTime\<close> there. The formatting of a valid instant in the door's
  time zone is luxon's; it is the parameter \<open>fmt\<close> (pattern, instant).\<close>

definition toMillis :: "int option \<Rightarrow> jsnum" where
  "toMillis dt = (case dt of None \<Rightarrow> NaN | Some t \<Rightarrow> Fin (of_int t))"

definition toFormat :: "(string \<Rightarrow> int \<Rightarrow> string) \<Rightarrow> int option \<Rightarrow> string \<Rightarrow> string" where
  "toFormat fmt dt pattern = (case dt of None \<Rightarrow> ''Invalid DateTime'' | Some t \<Rightarrow> fmt pattern t)"

text \<open>\<^verbatim>\<open>DateTime.fromISO(e.timestamp, ...)\<close>: luxon's parser is the parameter \<open>fromISO\<close>;
  an absent timestamp gives the invalid \<open>DateTime\<close>.\<close>

definition parseTimestamp :: "(string \<Rightarrow> int option) \<Rightarrow> string option \<Rightarrow> int option" where
  "parseTimestamp fromISO t = (case t of None \<Rightarrow> None | Some s \<Rightarrow> fromISO s)"

section \<open>Step 3 of the break report: filter to the door, normalize, filter, sort\<close>

text \<open>
  \<^verbatim>\<open>
  const filtered = rawEvents
  .filter((e) => {
      const info = e?.event_info || {};
      const eventDoorId = info.doorId || e.device_id || null;
      return eventDoorId === door_id;
  })
  .map((e) => { ... })
  .filter((e) => e.direction === 'in' || e.direction === 'out'
                 || (e.event_type || '').startsWith('DOOR_APB_'))
  .sort((a, b) => a.ts.toMillis() - b.ts.toMillis());\<close>
  \<open>door_id\<close> is the query parameter, a non-empty string on this path.
\<close>

definition eventDoorId :: "raw_event \<Rightarrow> string option" where
  "eventDoorId e = jsOr (jsOr (info_doorId e) (raw_device_id e)) None"

definition doorMatches :: "string \<Rightarrow> raw_event \<Rightarrow> bool" where
  "doorMatches did e = (eventDoorId e = Some did)"

text \<open>
  \<^verbatim>\<open>
  .map((e) => {
      const info = e.event_info || {};
      const { norm, label } = normalizeDirection(info.direction);
      return {
      event_id: e.event_id,
      event_type: e.event_type || '',
      violationMessage: info.message || null,
      timestampISO: e.timestamp,
      ts: DateTime.fromISO(e.timestamp, { zone: 'utc' }).setZone(tz),
      userId: info.userId || info.userInfo?.userId || 'unknown',
      userName: info.userName || info.userInfo?.name || 'Unknown User',
      siteName: info.siteName || door.site?.name || 'Unknown Site',
      direction: norm,
      directionLabel: label,
      doorName: info.doorInfo?.name || door.name || 'Door',
      };
  })\<close>
\<close>

definition normalizeEvent :: "(string \<Rightarrow> int option) \<Rightarrow> door \<Rightarrow> raw_event \<Rightarrow> event" where
  "normalizeEvent fromISO d e =
     (let (norm, label) = normalizeDirection (info_direction e) in
      \<lparr> event_id = raw_event_id e,
        event_type = orDefault (raw_event_type e) [],
        violationMessage = jsOr (info_message e) None,
        timestampISO = raw_timestamp e,
        ts = parseTimestamp fromISO (raw_timestamp e),
        userId = orDefault (jsOr (info_userId e) (info_userInfo_userId e)) ''unknown'',
        userName = orDefault (jsOr (info_userName e) (info_userInfo_name e)) ''Unknown User'',
        siteName = orDefault (jsOr (info_siteName e) (site_name d)) ''Unknown Site'',
        direction = norm,
        directionLabel = label,
        doorName = orDefault (jsOr (info_doorInfo_name e) (name d)) ''Door'' \<rparr>)"

definition isAPB :: "event \<Rightarrow> bool" where
  "isAPB ev = startsWith (event_type ev) ''DOOR_APB_''"

definition directionalOrAPB :: "event \<Rightarrow> bool" where
  "directionalOrAPB e = (direction e = ''in'' \<or> direction e = ''out'' \<or> isAPB e)"

text \<open>The chain up to the sort: the first \<open>filter\<close>, the \<open>map\<close> and the second \<open>filter\<close>.\<close>

definition filterChain :: "(string \<Rightarrow> int option) \<Rightarrow> door \<Rightarrow> string \<Rightarrow> raw_event list \<Rightarrow> event list" where
  "filterChain fromISO d did rawEvents =
     filter directionalOrAPB (map (normalizeEvent fromISO d) (filter (doorMatches did) rawEvents))"

text \<open>
  \<^verbatim>\<open>Array.prototype.sort\<close> with a comparator: \<open>cmp a b > 0\<close> puts \<open>b\<close> first, \<open>cmp a b < 0\<close>
  puts \<open>a\<close> first, and a result \<open>0\<close> or \<open>NaN\<close> (read as \<open>+0\<close>) leaves the two in their order:
  the sort is stable. For a consistent comparator every conforming sort gives the same
  list, here computed by insertion. When the comparator returns \<open>NaN\<close> for some pairs only
  it is not consistent and ECMAScript leaves the order to the implementation; the
  insertion sort below is then one possible order.
\<close>

fun insertBy :: "('a \<Rightarrow> 'a \<Rightarrow> jsnum) \<Rightarrow> 'a \<Rightarrow> 'a list \<Rightarrow> 'a list" where
  "insertBy cmp x [] = [x]"
| "insertBy cmp x (y # ys) =
     (if jsGt (cmp x y) (Fin 0) then y # insertBy cmp x ys else x # y # ys)"

definition jsSort :: "('a \<Rightarrow> 'a \<Rightarrow> jsnum) \<Rightarrow> 'a list \<Rightarrow> 'a list" where
  "jsSort cmp xs = foldr (insertBy cmp) xs []"

definition byTimestamp :: "event \<Rightarrow> event \<Rightarrow> jsnum" where
  "byTimestamp a b = jsSub (toMillis (ts a)) (toMillis (ts b))"

definition filtered :: "(string \<Rightarrow> int option) \<Rightarrow> door \<Rightarrow> string \<Rightarrow> raw_event list \<Rightarrow> event list" where
  "filtered fromISO d did rawEvents = jsSort byTimestamp (filterChain fromISO d did rawEvents)"

section \<open>Step 4: group by user, pair, collect violations\<close>

text \<open>
  \<^verbatim>\<open>
  const byUser = new Map();
  for (const ev of filtered) {
    if (!byUser.has(ev.userId)) byUser.set(ev.userId, []);
    byUser.get(ev.userId).push(ev);
  }\<close>
  A \<open>Map\<close> iterates in the order its keys were first set: an association list.
\<close>

fun pushUser :: "string \<Rightarrow> event \<Rightarrow> (string \<times> event list) list \<Rightarrow> (string \<times> event list) list" where
  "pushUser k ev [] = [(k, [ev])]"
| "pushUser k ev ((k', evs) # m) =
     (if k = k' then (k', evs @ [ev]) # m else (k', evs) # pushUser k ev m)"

definition groupByUser :: "event list \<Rightarrow> (string \<times> event list) list" where
  "groupByUser evs = fold (\<lambda>ev m. pushUser (userId ev) ev m) evs []"

text \<open>The records pushed to \<open>violations\<close> and \<open>pairs\<close>, and the \<open>in\<close>/\<open>out\<close> block of a pair.
  Field names are prefixed where two records of the code share a name.\<close>

record violation =
  v_date :: string
  v_time :: string
  v_message :: string
  v_event_type :: string

record stamp =
  date :: string
  time :: string
  atLocation :: string

record pair =
  p_userId :: string
  p_userName :: string
  p_siteName :: string
  area :: string
  p_in :: stamp
  p_out :: stamp
  totalMs :: jsnum
  totalLabel :: string

text \<open>
  \<^verbatim>\<open>
  violations.push({
      date: ev.ts.toFormat('yyyy-LL-dd'),
      time: ev.ts.toFormat('HH:mm:ss'),
      message: ev.violationMessage
               || ev.event_type.replace('DOOR_APB_', '').replace(/_/g, ' '),
      event_type: ev.event_type,
  });\<close>
\<close>

definition mkViolation :: "(string \<Rightarrow> int \<Rightarrow> string) \<Rightarrow> event \<Rightarrow> violation" where
  "mkViolation fmt ev =
     \<lparr> v_date = toFormat fmt (ts ev) ''yyyy-LL-dd'',
       v_time = toFormat fmt (ts ev) ''HH:mm:ss'',
       v_message = orDefault (violationMessage ev)
          (underscoresToSpaces (replaceFirst ''DOOR_APB_'' [] (event_type ev))),
       v_event_type = event_type ev \<rparr>"

text \<open>
  \<^verbatim>\<open>
  const first = lastInbound;
  const second = ev;
  const durationMs = Math.max(0, second.ts.toMillis() - first.ts.toMillis());
  pairs.push({ userId, userName: first.userName || second.userName, ...,
               totalMs: durationMs, totalLabel: msToHMM(durationMs) });\<close>
\<close>

definition durationMs :: "event \<Rightarrow> event \<Rightarrow> jsnum" where
  "durationMs first second = mathMax (Fin 0) (jsSub (toMillis (ts second)) (toMillis (ts first)))"

definition mkPair :: "(string \<Rightarrow> int \<Rightarrow> string) \<Rightarrow> string \<Rightarrow> event \<Rightarrow> event \<Rightarrow> pair" where
  "mkPair fmt uid first second =
     \<lparr> p_userId = uid,
       p_userName = orDefault (Some (userName first)) (userName second),
       p_siteName = orDefault (Some (siteName first)) (siteName second),
       area = ''Break Room'',
       p_in = \<lparr> date = toFormat fmt (ts first) ''yyyy-LL-dd'',
                time = toFormat fmt (ts first) ''HH:mm:ss'',
                atLocation = doorName first @ '' '' @ directionLabel first \<rparr>,
       p_out = \<lparr> date = toFormat fmt (ts second) ''yyyy-LL-dd'',
                 time = toFormat fmt (ts second) ''HH:mm:ss'',
                 atLocation = doorName second @ '' '' @ directionLabel second \<rparr>,
       totalMs = durationMs first second,
       totalLabel = msToHMM (durationMs first second) \<rparr>"

text \<open>
  The three variables of the pairing loop, and one turn of its body:
  \<^verbatim>\<open>
  let lastInbound = null; const pairs = []; const violations = [];
  for (const ev of evs) {
      const isAPB = (ev.event_type || '').startsWith('DOOR_APB_');
      if (isAPB) { violations.push({...}); }
      if (ev.direction === 'in') {
          lastInbound = ev;
      } else if (ev.direction === 'out') {
          if (lastInbound) { ...; pairs.push({...}); lastInbound = null; }
          else { }
      }
  }\<close>
  Beside \<open>pairs\<close> the state records in \<open>matched\<close> which two events each pair was built
  from (\<open>first\<close>, \<open>second\<close>): the code's pair keeps only their formatted date and time.
\<close>

record pstate =
  lastInbound :: "event option"
  pairs :: "pair list"
  violations :: "violation list"
  matched :: "(event \<times> event) list"

definition initState :: pstate where
  "initState = \<lparr> lastInbound = None, pairs = [], violations = [], matched = [] \<rparr>"

definition pairStep :: "(string \<Rightarrow> int \<Rightarrow> string) \<Rightarrow> string \<Rightarrow> event \<Rightarrow> pstate \<Rightarrow> pstate" where
  "pairStep fmt uid ev s =
     (let s1 = (if isAPB ev then s\<lparr> violations := violations s @ [mkViolation fmt ev] \<rparr> else s)
      in if direction ev = ''in'' then s1\<lparr> lastInbound := Some ev \<rparr>
         else if direction ev = ''out'' then
           (case lastInbound s1 of
              Some first \<Rightarrow>
                s1\<lparr> pairs := pairs s1 @ [mkPair fmt uid first ev],
                    matched := matched s1 @ [(first, ev)],
                    lastInbound := None \<rparr>
            | None \<Rightarrow> s1)
         else s1)"

definition pairLoop :: "(string \<Rightarrow> int \<Rightarrow> string) \<Rightarrow> string \<Rightarrow> event list \<Rightarrow> pstate \<Rightarrow> pstate" where
  "pairLoop fmt uid evs s = fold (pairStep fmt uid) evs s"

section \<open>The report of one user, and the list of users\<close>

text \<open>
  \<^verbatim>\<open>
  const totalMs = pairs.reduce((sum, p) => sum + p.totalMs, 0);
  if (totalMs >= minMinutes * 60 * 1000 || violations.length > 0) {
      results.push({
      userId,
      userName: pairs[0]?.userName || evs[0]?.userName || 'Unknown User',
      siteName: pairs[0]?.siteName || evs[0]?.siteName || 'Unknown Site',
      totalMs,
      totalLabel: msToHMM(totalMs),
      pairs,
      violations,
      });
  }\<close>
\<close>

record user_report =
  u_userId :: string
  u_userName :: string
  u_siteName :: string
  u_totalMs :: jsnum
  u_totalLabel :: string
  u_pairs :: "pair list"
  u_violations :: "violation list"

definition sumTotalMs :: "pair list \<Rightarrow> jsnum" where
  "sumTotalMs ps = fold (\<lambda>p sum. jsAdd sum (totalMs p)) ps (Fin 0)"

definition firstOf :: "'a list \<Rightarrow> 'a option" where
  "firstOf xs = (case xs of [] \<Rightarrow> None | x # _ \<Rightarrow> Some x)"

definition included :: "jsnum \<Rightarrow> jsnum \<Rightarrow> violation list \<Rightarrow> bool" where
  "included minMinutes sumMs vs =
     (jsGe sumMs (jsMulC (jsMulC minMinutes 60) 1000) \<or> length vs > 0)"

definition userReport ::
  "(string \<Rightarrow> int \<Rightarrow> string) \<Rightarrow> jsnum \<Rightarrow> string \<times> event list \<Rightarrow> user_report option" where
  "userReport fmt minMinutes entry =
     (let uid = fst entry; evs = snd entry;
          s = pairLoop fmt uid evs initState;
          sumMs = sumTotalMs (pairs s)
      in if included minMinutes sumMs (violations s) then
           Some \<lparr> u_userId = uid,
                  u_userName = orDefault (jsOr (map_option p_userName (firstOf (pairs s)))
                                             (map_option userName (firstOf evs))) ''Unknown User'',
                  u_siteName = orDefault (jsOr (map_option p_siteName (firstOf (pairs s)))
                                             (map_option siteName (firstOf evs))) ''Unknown Site'',
                  u_totalMs = sumMs,
                  u_totalLabel = msToHMM sumMs,
                  u_pairs = pairs s,
                  u_violations = violations s \<rparr>
         else None)"

text \<open>The loop over \<^verbatim>\<open>byUser.entries()\<close> pushes the reports of the users it includes.\<close>

definition buildResults ::
  "(string \<Rightarrow> int \<Rightarrow> string) \<Rightarrow> jsnum \<Rightarrow> (string \<times> event list) list \<Rightarrow> user_report list" where
  "buildResults fmt minMinutes byUser = List.map_filter (userReport fmt minMinutes) byUser"

text \<open>
  \<^verbatim>\<open>
  results.sort((a, b) => {
    if (b.totalMs !== a.totalMs) return b.totalMs - a.totalMs;
    return (b.violations?.length || 0) - (a.violations?.length || 0);
  });\<close>
\<close>

definition compareResults :: "user_report \<Rightarrow> user_report \<Rightarrow> jsnum" where
  "compareResults a b =
     (if jsStrictNe (u_totalMs b) (u_totalMs a) then jsSub (u_totalMs b) (u_totalMs a)
      else jsSub (Fin (of_nat (length (u_violations b)))) (Fin (of_nat (length (u_violations a)))))"

definition buildUsers ::
  "(string \<Rightarrow> int \<Rightarrow> string) \<Rightarrow> jsnum \<Rightarrow> event list \<Rightarrow> user_report list" where
  "buildUsers fmt minMinutes evs =
     jsSort compareResults (buildResults fmt minMinutes (groupByUser evs))"

section \<open>The handler of \<^verbatim>\<open>GET /api/break-report\<close>\<close>

text \<open>
  The query of the request. A parameter is a string or absent (a parameter repeated in the
  URL, which the framework turns into an array, is not modelled).
\<close>

record request =
  q_door_id :: "string option"
  q_date :: "string option"
  q_min_minutes :: "string option"

text \<open>
  What the handler calls outside the file: the conversion of a string to a number
  (\<^verbatim>\<open>Number(s)\<close>), the token and the two fetches (\<open>None\<close> when the call throws), luxon's
  parsing of the \<open>date\<close> parameter in a time zone and its current day there (each as the
  Unix seconds of the start and the end of the day, \<open>None\<close> when \<^verbatim>\<open>isValid\<close> is false),
  luxon's parsing of a timestamp and its formatting of an instant in a time zone.
\<close>

record env =
  stringToNumber :: "string \<Rightarrow> jsnum"
  getBearerToken :: "string option"
  fetchDoors :: "string \<Rightarrow> door list option"
  dayFromISO :: "string \<Rightarrow> string \<Rightarrow> (int \<times> int) option"
  todayIn :: "string \<Rightarrow> int \<times> int"
  fetchAllAccessEvents :: "int \<Rightarrow> int \<Rightarrow> string \<Rightarrow> raw_event list option"
  fromISO :: "string \<Rightarrow> int option"
  formatIn :: "string \<Rightarrow> string \<Rightarrow> int \<Rightarrow> string"

text \<open>\<^verbatim>\<open>Number(min_minutes)\<close>: \<open>Number(undefined)\<close> is \<open>NaN\<close>.
  \<^verbatim>\<open>const minMinutes = Number.isFinite(Number(min_minutes)) ? Number(min_minutes) : 45;\<close>\<close>

definition Number :: "(string \<Rightarrow> jsnum) \<Rightarrow> string option \<Rightarrow> jsnum" where
  "Number toNum v = (case v of None \<Rightarrow> NaN | Some s \<Rightarrow> toNum s)"

fun isFinite :: "jsnum \<Rightarrow> bool" where
  "isFinite (Fin a) = True"
| "isFinite v = False"

definition minMinutesOf :: "(string \<Rightarrow> jsnum) \<Rightarrow> string option \<Rightarrow> jsnum" where
  "minMinutesOf toNum min_minutes =
     (if isFinite (Number toNum min_minutes) then Number toNum min_minutes else Fin 45)"

record door_block =
  b_door_id :: string
  b_name :: "string option"
  b_site_name :: string
  b_timezone :: string

record range_block =
  start_unix :: int
  end_unix :: int
  tz :: string

record payload =
  r_door :: door_block
  generatedRange :: range_block
  min_minutes :: jsnum
  users :: "user_report list"

text \<open>
  The handler answers with a status and an error message, or with the report:
  \<^verbatim>\<open>
  if (!door_id) return res.status(400).json({ error: 'Missing door_id' });
  const minMinutes = Number.isFinite(Number(min_minutes)) ? Number(min_minutes) : 45;
  try {
    const apiToken = await getBearerToken();
    ... const { doors: allDoors = [] } = await doorsResp.json();
    const door = allDoors.find((d) => d.door_id === door_id);
    if (!door) return res.status(404).json({ error: 'Door not found' });
    const tz = door.timezone || 'UTC';
    const todayInTz = DateTime.now().setZone(tz);
    const targetDay = date ? DateTime.fromISO(date, { zone: tz, setZone: true }) : todayInTz;
    if (!targetDay.isValid)
      return res.status(400).json({ error: 'Invalid date format. Use YYYY-MM-DD.' });
    ... const rawEvents = await fetchAllAccessEvents(startUnix, endUnix, apiToken);
    ... res.json({ door: {...}, generatedRange: {...}, min_minutes: minMinutes, users: results });
  } catch (err) {
    res.status(500).json({ error: 'Failed to generate break report' });
  }\<close>
\<close>

datatype response = Failure nat string | Json payload

definition breakReport :: "env \<Rightarrow> request \<Rightarrow> response" where
  "breakReport env req =
     (if \<not> truthy (q_door_id req) then Failure 400 ''Missing door_id''
      else
        let did = orDefault (q_door_id req) [];
            minMinutes = minMinutesOf (stringToNumber env) (q_min_minutes req)
        in case getBearerToken env of
             None \<Rightarrow> Failure 500 ''Failed to generate break report''
           | Some apiToken \<Rightarrow>
        (case fetchDoors env apiToken of
             None \<Rightarrow> Failure 500 ''Failed to generate break report''
           | Some allDoors \<Rightarrow>
        (case find (\<lambda>d. door_id d = did) allDoors of
             None \<Rightarrow> Failure 404 ''Door not found''
           | Some d \<Rightarrow>
        (let zone = orDefault (timezone d) ''UTC'';
             targetDay = (if truthy (q_date req)
                          then dayFromISO env (orDefault (q_date req) []) zone
                          else Some (todayIn env zone))
         in case targetDay of
              None \<Rightarrow> Failure 400 ''Invalid date format. Use YYYY-MM-DD.''
            | Some (startUnix, endUnix) \<Rightarrow>
        (case fetchAllAccessEvents env startUnix endUnix apiToken of
              None \<Rightarrow> Failure 500 ''Failed to generate break report''
            | Some rawEvents \<Rightarrow>
                Json \<lparr> r_door = \<lparr> b_door_id = door_id d, b_name = name d,
                                  b_site_name = orDefault (site_name d) ''Unknown Site'',
                                  b_timezone = zone \<rparr>,
                       generatedRange = \<lparr> start_unix = startUnix, end_unix = endUnix, tz = zone \<rparr>,
                       min_minutes = minMinutes,
                       users = buildUsers (formatIn env zone) minMinutes
                                 (filtered (fromISO env) d did rawEvents) \<rparr>)))))"

section \<open>Properties of the input, and sample collaborators\<close>









text \<open>
  Stand-ins for luxon on the day 1970-01-01 in UTC, used by the examples: the parser knows
  a few instants of that day, and the formatter prints an instant of that day.
\<close>

definition sampleFromISO :: "string \<Rightarrow> int option" where
  "sampleFromISO s =
     map_of [(''1970-01-01T09:00:00Z'', 32400000), (''1970-01-01T09:50:00Z'', 35400000),
             (''1970-01-01T10:05:00Z'', 36300000), (''1970-01-01T10:06:00Z'', 36360000)] s"

definition pad2 :: "int \<Rightarrow> string" where
  "pad2 k = [''0123456789'' ! nat (k div 10), ''0123456789'' ! nat (k mod 10)]"

definition sampleFormat :: "string \<Rightarrow> int \<Rightarrow> string" where
  "sampleFormat pattern t =
     (if pattern = ''yyyy-LL-dd'' then ''1970-01-01''
      else pad2 (t div 3600000) @ '':'' @ pad2 (t div 60000 mod 60) @ '':'' @ pad2 (t div 1000 mod 60))"

definition sampleDoor :: door where
  "sampleDoor = \<lparr> door_id = ''d1'', name = Some ''Break Room'', site_name = Some ''HQ'',
                  timezone = Some ''UTC'' \<rparr>"

text \<open>A raw event with its type, door, direction, user and timestamp; the other fields
  are absent.\<close>

definition rawEvent :: "string \<Rightarrow> string \<Rightarrow> string \<Rightarrow> string \<Rightarrow> string \<Rightarrow> raw_event" where
  "rawEvent typ did dir uid stamp =
     \<lparr> raw_event_id = None, raw_event_type = Some typ, raw_timestamp = Some stamp,
       raw_device_id = None, info_doorId = Some did, info_direction = Some dir,
       info_message = None, info_userId = Some uid, info_userName = None,
       info_siteName = None, info_userInfo_userId = None, info_userInfo_name = None,
       info_doorInfo_name = None \<rparr>"

text \<open>The event that \<open>normalizeEvent\<close> makes of such a raw event at \<open>sampleDoor\<close>, given the
  direction (with its label) and the parsed timestamp.\<close>

definition sampleEvent :: "string \<Rightarrow> string \<Rightarrow> string \<Rightarrow> string \<Rightarrow> string \<Rightarrow> int option \<Rightarrow> event" where
  "sampleEvent typ dir label uid stamp t =
     \<lparr> event_id = None, event_type = typ, violationMessage = None, timestampISO = Some stamp,
       ts = t, userId = uid, userName = ''Unknown User'', siteName = ''HQ'',
       direction = dir, directionLabel = label, doorName = ''Break Room'' \<rparr>"


definition sampleEnv :: "raw_event list \<Rightarrow> env" where
  "sampleEnv rawEvents =
     \<lparr> stringToNumber =
         (\<lambda>s. case map_of [(''30'', Fin 30), (''0.5'', Fin (1 / 2)), ([], Fin 0),
                               (''Infinity'', PosInf)] s of
                Some v \<Rightarrow> v
              | None \<Rightarrow> NaN),
       getBearerToken = Some ''token'',
       fetchDoors = (\<lambda>apiToken. Some [sampleDoor]),
       dayFromISO = (\<lambda>day zone. if day = ''1970-01-01'' then Some (0, 86399) else None),
       todayIn = (\<lambda>zone. (0, 86399)),
       fetchAllAccessEvents = (\<lambda>startUnix endUnix apiToken. Some rawEvents),
       fromISO = sampleFromISO,
       formatIn = (\<lambda>zone. sampleFormat) \<rparr>"

section \<open>Duration labels\<close>

declare showNat.simps [simp del]

lemma showNat_digit: "n < 10 \<Longrightarrow> showNat n = [''0123456789'' ! n]"
  by (subst showNat.simps) simp

lemma showNat_more:
  "\<not> n < 10 \<Longrightarrow> showNat n = showNat (n div 10) @ [''0123456789'' ! (n mod 10)]"
  by (subst showNat.simps) simp

lemmas show_number = showInt_def showNat_digit showNat_more

lemma round_minutes: "\<lfloor>(of_int n :: rat) / 60000 + 1 / 2\<rfloor> = (n + 30000) div 60000"
proof -
  have "(of_int n :: rat) / 60000 + 1 / 2 = of_int (n + 30000) / of_int 60000" by simp
  then show ?thesis by (simp only: floor_divide_of_int_eq)
qed

lemma floor_div60: "\<lfloor>(of_int n :: rat) / 60\<rfloor> = n div 60"
  using floor_divide_of_int_eq[of n 60, where ?'a = rat] by simp

lemma totalMinutes_int:
  "mathRound (jsDivC (Fin (of_int n)) 60000) = Fin (of_int ((n + 30000) div 60000))"
  by (simp add: round_minutes)

lemma hours_int: "mathFloor (jsDivC (Fin (of_int t)) 60) = Fin (of_int (t div 60))"
  by (simp add: floor_div60)

lemma minutes_int:
  assumes "0 \<le> t"
  shows "jsRemC (Fin (of_int t)) 60 = Fin (of_int (t mod 60))"
proof -
  have "truncQuot (of_int t) 60 = t div 60"
    using assms by (simp add: truncQuot_def floor_div60)
  moreover have "t - 60 * (t div 60) = t mod 60"
    by (simp add: minus_mult_div_eq_mod)
  ultimately show ?thesis
    by (simp del: of_int_diff of_int_mult add: of_int_diff[symmetric] of_int_mult[symmetric])
qed

lemma numToString_int: "numToString (Fin (of_int k)) = showInt k"
  by simp

text \<open>The label of a whole, non-negative number of milliseconds, in integer arithmetic.\<close>

lemma msToHMM_int:
  assumes "0 \<le> n"
  shows "msToHMM (Fin (of_int n)) =
     (let t = (n + 30000) div 60000 in
      if 60 \<le> t then showInt (t div 60) @ ''h '' @ showInt (t mod 60) @ ''m''
      else showInt t @ ''m'')"
proof -
  define t where "t = (n + 30000) div 60000"
  have t0: "0 \<le> t" using assms by (simp add: t_def)
  have gt: "jsGt (Fin (of_int (t div 60))) (Fin 0) = (60 \<le> t)"
    using t0 by auto
  have small: "\<not> 60 \<le> t \<Longrightarrow> t mod 60 = t" using t0 by simp
  show ?thesis
    unfolding msToHMM_def Let_def totalMinutes_int t_def[symmetric] hours_int
      minutes_int[OF t0] gt numToString_int
    using small by simp
qed

lemma msToHMM_zero: "msToHMM (Fin 0) = ''0m''"
  using msToHMM_int[of 0] by (simp add: show_number)
lemma nearest_minute:
  fixes n :: int
  defines "t \<equiv> (n + 30000) div 60000"
  shows "\<bar>60000 * t - n\<bar> \<le> 30000" and "n mod 60000 = 30000 \<Longrightarrow> 60000 * t = n + 30000"
proof -
  have split: "n + 30000 = 60000 * t + (n + 30000) mod 60000"
    by (simp add: t_def)
  have range: "0 \<le> (n + 30000) mod 60000" "(n + 30000) mod 60000 < 60000" by simp_all
  show "\<bar>60000 * t - n\<bar> \<le> 30000" using split range by linarith
  assume "n mod 60000 = 30000"
  then have "(n + 30000) mod 60000 = (30000 + 30000) mod 60000"
    by (metis mod_add_left_eq)
  then have "(n + 30000) mod 60000 = 0" by simp
  with split show "60000 * t = n + 30000" by linarith
qed

text \<open>
  Claim C3, as the code has it. \<open>msToHMM\<close> rounds a non-negative duration to the nearest
  whole minute \<open>t\<close> (a half rounds up), and prints \<open>t\<close> minutes alone when \<open>t < 60\<close>, and
  otherwise the whole hours and the remaining minutes. So \<open>0\<close> ms is \<open>0m\<close>, \<open>59000\<close> ms is
  \<open>1m\<close>, \<open>3600000\<close> ms is \<open>1h 0m\<close> and \<open>5400000\<close> ms is \<open>1h 30m\<close>; \<open>90000\<close> ms is a minute
  and a half and is \<open>2m\<close>.
\<close>

theorem msToHMM_nearest_minute:
  "0 \<le> n \<Longrightarrow>
     (let t = (n + 30000) div 60000 in
        msToHMM (Fin (of_int n)) =
          (if t < 60 then showInt t @ ''m''
           else showInt (t div 60) @ ''h '' @ showInt (t mod 60) @ ''m'')
        \<and> 0 \<le> t \<and> \<bar>60000 * t - n\<bar> \<le> 30000 \<and> (n mod 60000 = 30000 \<longrightarrow> 60000 * t = n + 30000))
     \<and> msToHMM (Fin 0) = ''0m''
     \<and> msToHMM (Fin 59000) = ''1m''
     \<and> msToHMM (Fin 90000) = ''2m''
     \<and> msToHMM (Fin 3600000) = ''1h 0m''
     \<and> msToHMM (Fin 5400000) = ''1h 30m''"
proof -
  assume n0: "0 \<le> n"
  define t where "t = (n + 30000) div 60000"
  have label: "msToHMM (Fin (of_int n)) =
      (if t < 60 then showInt t @ ''m''
       else showInt (t div 60) @ ''h '' @ showInt (t mod 60) @ ''m'')"
    using msToHMM_int[OF n0] by (simp add: t_def Let_def not_le)
  have t0: "0 \<le> t" using n0 by (simp add: t_def)
  have near: "\<bar>60000 * t - n\<bar> \<le> 30000"
    unfolding t_def by (rule nearest_minute(1))
  have half: "n mod 60000 = 30000 \<longrightarrow> 60000 * t = n + 30000"
    unfolding t_def using nearest_minute(2) by blast
  have e1: "msToHMM (Fin 59000) = ''1m''"
    using msToHMM_int[of 59000] by (simp add: show_number)
  have e2: "msToHMM (Fin 90000) = ''2m''"
    using msToHMM_int[of 90000] by (simp add: show_number)
  have e3: "msToHMM (Fin 3600000) = ''1h 0m''"
    using msToHMM_int[of 3600000] by (simp add: show_number)
  have e4: "msToHMM (Fin 5400000) = ''1h 30m''"
    using msToHMM_int[of 5400000] by (simp add: show_number)
  have general: "(let t = (n + 30000) div 60000 in
        msToHMM (Fin (of_int n)) =
          (if t < 60 then showInt t @ ''m''
           else showInt (t div 60) @ ''h '' @ showInt (t mod 60) @ ''m'')
        \<and> 0 \<le> t \<and> \<bar>60000 * t - n\<bar> \<le> 30000 \<and> (n mod 60000 = 30000 \<longrightarrow> 60000 * t = n + 30000))"
    unfolding Let_def t_def[symmetric]
    by (intro conjI label t0 near half)
  show ?thesis
    by (intro conjI general msToHMM_zero e1 e2 e3 e4)
qed

theorem msToHMM_nearest_minute_witness:
  "(0::int) \<le> 754000 \<and> msToHMM (Fin 754000) = ''13m'' \<and> msToHMM (Fin 5400000) = ''1h 30m''"
  using msToHMM_nearest_minute[of 754000] by (simp add: show_number)

theorem msToHMM_90000_counterexample: "msToHMM (Fin 90000) \<noteq> ''1h 30m''"
  using msToHMM_int[of 90000] by (simp add: show_number)

section \<open>The filter chain and the sort\<close>

lemma mset_insertBy: "mset (insertBy cmp x xs) = add_mset x (mset xs)"
  by (induction xs) auto

lemma mset_jsSort: "mset (jsSort cmp xs) = mset xs"
  by (induction xs) (auto simp: jsSort_def mset_insertBy)

lemma set_jsSort: "set (jsSort cmp xs) = set xs"
  using mset_jsSort[of cmp xs] by (metis set_mset_mset)

lemma length_jsSort: "length (jsSort cmp xs) = length xs"
  using mset_jsSort[of cmp xs] by (metis size_mset)

lemma jsSort_Nil: "jsSort cmp [] = []"
  by (simp add: jsSort_def)

lemma jsSort_Cons: "jsSort cmp (x # xs) = insertBy cmp x (jsSort cmp xs)"
  by (simp add: jsSort_def)

lemma normalizeDirection_in: "normalizeDirection (Some ''in'') = (''in'', ''Inbound'')"
  by (simp add: normalizeDirection_def truthy_def orDefault_def toLowerCase_def lowerChar_def)

lemma normalizeDirection_out: "normalizeDirection (Some ''out'') = (''out'', ''Outbound'')"
  by (simp add: normalizeDirection_def truthy_def orDefault_def toLowerCase_def lowerChar_def)

lemma normalize_rawEvent:
  assumes "typ \<noteq> []" "uid \<noteq> []" "normalizeDirection (Some dir) = (n, l)"
  shows "normalizeEvent parse sampleDoor (rawEvent typ did dir uid stamp) =
         sampleEvent typ n l uid stamp (parse stamp)"
  using assms
  by (simp add: normalizeEvent_def rawEvent_def sampleEvent_def sampleDoor_def orDefault_def
      jsOr_def truthy_def parseTimestamp_def)

lemma doorMatches_rawEvent:
  "did' \<noteq> [] \<Longrightarrow> doorMatches did (rawEvent typ did' dir uid stamp) = (did' = did)"
  by (simp add: doorMatches_def eventDoorId_def rawEvent_def jsOr_def truthy_def)

lemma filterChain_eq:
  "filterChain parse d did rawEvents =
     map (normalizeEvent parse d)
       (filter (\<lambda>e. doorMatches did e \<and> directionalOrAPB (normalizeEvent parse d e)) rawEvents)"
  by (induction rawEvents) (auto simp: filterChain_def)

text \<open>
  Claim C1, as the code has it. The door filter runs first, on the raw events, and the
  direction-or-APB filter runs on what it kept. So the chain keeps, in their order,
  exactly the events whose door identifier is the target door \<^emph>\<open>and\<close> whose direction is
  \<open>in\<close> or \<open>out\<close> or whose type starts with \<open>DOOR_APB_\<close>; it is a subsequence of the
  normalized events, and the sort that follows only permutes it.
\<close>

theorem filterChain_door_and_direction_or_apb:
  "filterChain parse d did rawEvents =
     map (normalizeEvent parse d)
       (filter (\<lambda>e. eventDoorId e = Some did \<and>
                     (direction (normalizeEvent parse d e) = ''in''
                      \<or> direction (normalizeEvent parse d e) = ''out''
                      \<or> startsWith (event_type (normalizeEvent parse d e)) ''DOOR_APB_''))
          rawEvents)
   \<and> subseq (filterChain parse d did rawEvents) (map (normalizeEvent parse d) rawEvents)
   \<and> mset (filtered parse d did rawEvents) = mset (filterChain parse d did rawEvents)"
proof -
  have eq: "filterChain parse d did rawEvents =
     map (normalizeEvent parse d)
       (filter (\<lambda>e. eventDoorId e = Some did \<and>
                     (direction (normalizeEvent parse d e) = ''in''
                      \<or> direction (normalizeEvent parse d e) = ''out''
                      \<or> startsWith (event_type (normalizeEvent parse d e)) ''DOOR_APB_''))
          rawEvents)"
    by (simp add: filterChain_eq doorMatches_def directionalOrAPB_def isAPB_def)
  have sub: "subseq (filterChain parse d did rawEvents) (map (normalizeEvent parse d) rawEvents)"
    unfolding filterChain_eq by (intro subseq_map subseq_filter_left)
  have perm: "mset (filtered parse d did rawEvents) = mset (filterChain parse d did rawEvents)"
    by (simp add: filtered_def mset_jsSort)
  from eq sub perm show ?thesis by blast
qed

lemma eventDoorId_rawEvent:
  "did' \<noteq> [] \<Longrightarrow> eventDoorId (rawEvent typ did' dir uid stamp) = Some did'"
  by (simp add: eventDoorId_def rawEvent_def jsOr_def truthy_def)

text \<open>
  Claim C1 as stated fails: an event of type \<open>DOOR_APB_DOUBLE_ENTRY\<close> reported by door \<open>d2\<close>
  is APB-prefixed, and the chain for door \<open>d1\<close> drops it.
\<close>

theorem apb_other_door_counterexample:
  "isAPB (normalizeEvent sampleFromISO sampleDoor
            (rawEvent ''DOOR_APB_DOUBLE_ENTRY'' ''d2'' ''in'' ''u1'' ''1970-01-01T09:00:00Z''))
   \<and> eventDoorId (rawEvent ''DOOR_APB_DOUBLE_ENTRY'' ''d2'' ''in'' ''u1'' ''1970-01-01T09:00:00Z'') \<noteq> Some ''d1''
   \<and> filterChain sampleFromISO sampleDoor ''d1''
        [rawEvent ''DOOR_APB_DOUBLE_ENTRY'' ''d2'' ''in'' ''u1'' ''1970-01-01T09:00:00Z''] = []"
proof -
  have n: "normalizeEvent sampleFromISO sampleDoor
            (rawEvent ''DOOR_APB_DOUBLE_ENTRY'' ''d2'' ''in'' ''u1'' ''1970-01-01T09:00:00Z'') =
           sampleEvent ''DOOR_APB_DOUBLE_ENTRY'' ''in'' ''Inbound'' ''u1'' ''1970-01-01T09:00:00Z''
             (sampleFromISO ''1970-01-01T09:00:00Z'')"
    by (rule normalize_rawEvent[OF _ _ normalizeDirection_in]) simp_all
  have a: "isAPB (sampleEvent ''DOOR_APB_DOUBLE_ENTRY'' ''in'' ''Inbound'' ''u1'' ''1970-01-01T09:00:00Z''
             (sampleFromISO ''1970-01-01T09:00:00Z''))"
    by (simp add: isAPB_def startsWith_def sampleEvent_def)
  have d: "eventDoorId (rawEvent ''DOOR_APB_DOUBLE_ENTRY'' ''d2'' ''in'' ''u1'' ''1970-01-01T09:00:00Z'') = Some ''d2''"
    by (rule eventDoorId_rawEvent) simp
  have f: "filterChain sampleFromISO sampleDoor ''d1''
        [rawEvent ''DOOR_APB_DOUBLE_ENTRY'' ''d2'' ''in'' ''u1'' ''1970-01-01T09:00:00Z''] = []"
    by (simp add: filterChain_def doorMatches_def d)
  show ?thesis using a d f by (simp add: n)
qed

section \<open>The pairing loop\<close>

lemma pairLoop_Nil: "pairLoop fmt uid [] s = s"
  by (simp add: pairLoop_def)

lemma pairLoop_Cons: "pairLoop fmt uid (ev # evs) s = pairLoop fmt uid evs (pairStep fmt uid ev s)"
  by (simp add: pairLoop_def)

lemma pairLoop_append:
  "pairLoop fmt uid (xs @ ys) s = pairLoop fmt uid ys (pairLoop fmt uid xs s)"
  by (simp add: pairLoop_def)

lemma in_is_not_out: "direction ev = ''in'' \<Longrightarrow> direction ev \<noteq> ''out''"
  by simp

lemma lastInbound_pairStep:
  "lastInbound (pairStep fmt uid ev s) =
     (if direction ev = ''in'' then Some ev
      else if direction ev = ''out'' then None else lastInbound s)"
  by (simp add: pairStep_def Let_def split: option.split)

lemma matched_pairStep:
  "matched (pairStep fmt uid ev s) =
     matched s @ (if direction ev = ''out''
                  then (case lastInbound s of Some first \<Rightarrow> [(first, ev)] | None \<Rightarrow> [])
                  else [])"
  by (simp add: pairStep_def Let_def split: option.split)

lemma pairs_pairStep:
  "pairs (pairStep fmt uid ev s) =
     pairs s @ (if direction ev = ''out''
                then (case lastInbound s of Some first \<Rightarrow> [mkPair fmt uid first ev] | None \<Rightarrow> [])
                else [])"
  by (simp add: pairStep_def Let_def split: option.split)

lemma violations_pairStep:
  "violations (pairStep fmt uid ev s) =
     violations s @ (if isAPB ev then [mkViolation fmt ev] else [])"
  by (simp add: pairStep_def Let_def split: option.split)

lemmas pairStep_fields = lastInbound_pairStep matched_pairStep pairs_pairStep violations_pairStep

lemma violations_pairLoop:
  "violations (pairLoop fmt uid evs s) = violations s @ map (mkViolation fmt) (filter isAPB evs)"
  by (induction evs arbitrary: s) (simp_all add: pairLoop_Nil pairLoop_Cons violations_pairStep)







lemma only_ins:
  assumes "ins \<noteq> []" "\<forall>e \<in> set ins. direction e = ''in''"
  shows "lastInbound (pairLoop fmt uid ins s) = Some (last ins)
       \<and> matched (pairLoop fmt uid ins s) = matched s
       \<and> pairs (pairLoop fmt uid ins s) = pairs s"
  using assms
proof (induction ins arbitrary: s)
  case Nil
  then show ?case by simp
next
  case (Cons ev ins)
  have ev: "direction ev = ''in''" using Cons.prems(2) by simp
  show ?case
  proof (cases "ins = []")
    case True
    then show ?thesis using ev by (simp add: pairLoop_Cons pairLoop_Nil pairStep_fields)
  next
    case False
    then show ?thesis
      using Cons.IH[of "pairStep fmt uid ev s"] Cons.prems(2) ev
      by (simp add: pairLoop_Cons pairStep_fields)
  qed
qed

lemma pairing_ignores_violations:
  assumes "lastInbound s = lastInbound s'" "pairs s = pairs s'" "matched s = matched s'"
  shows "lastInbound (pairLoop fmt uid evs s) = lastInbound (pairLoop fmt uid evs s')
       \<and> pairs (pairLoop fmt uid evs s) = pairs (pairLoop fmt uid evs s')
       \<and> matched (pairLoop fmt uid evs s) = matched (pairLoop fmt uid evs s')"
  using assms
proof (induction evs arbitrary: s s')
  case Nil
  then show ?case by (simp add: pairLoop_Nil)
next
  case (Cons ev evs)
  show ?case
    unfolding pairLoop_Cons
    by (rule Cons.IH) (simp_all add: pairStep_fields Cons.prems)
qed

section \<open>Pairs, violations and the order of events\<close>

lemma sampleEvent_fields:
  "event_type (sampleEvent typ dir label uid stamp t) = typ"
  "violationMessage (sampleEvent typ dir label uid stamp t) = None"
  "ts (sampleEvent typ dir label uid stamp t) = t"
  "userId (sampleEvent typ dir label uid stamp t) = uid"
  "userName (sampleEvent typ dir label uid stamp t) = ''Unknown User''"
  "siteName (sampleEvent typ dir label uid stamp t) = ''HQ''"
  "direction (sampleEvent typ dir label uid stamp t) = dir"
  "directionLabel (sampleEvent typ dir label uid stamp t) = label"
  "doorName (sampleEvent typ dir label uid stamp t) = ''Break Room''"
  by (simp_all add: sampleEvent_def)

lemma pairStep_out_idle:
  assumes "lastInbound s = None" "direction ev = ''out''" "\<not> isAPB ev"
  shows "pairStep fmt uid ev s = s"
  using assms by (simp add: pairStep_def)

text \<open>
  Claim C5. After any events \<open>pre\<close>, a run of one or more \<open>in\<close> events followed by one
  \<open>out\<close> event adds exactly one pair: its in-event is the last \<open>in\<close> of the run and its
  out-event is that \<open>out\<close>. The earlier \<open>in\<close> events of the run give no pair, and nothing
  is pending afterwards. (No order of the timestamps is needed.)
\<close>

theorem latest_in_wins:
  assumes "ins \<noteq> []" and "\<forall>e \<in> set ins. direction e = ''in''" and "direction out = ''out''"
  shows "pairs (pairLoop fmt uid (pre @ ins @ [out]) initState) =
           pairs (pairLoop fmt uid pre initState) @ [mkPair fmt uid (last ins) out]
       \<and> matched (pairLoop fmt uid (pre @ ins @ [out]) initState) =
           matched (pairLoop fmt uid pre initState) @ [(last ins, out)]
       \<and> lastInbound (pairLoop fmt uid (pre @ ins @ [out]) initState) = None
       \<and> pairs (pairLoop fmt uid (ins @ [out]) initState) = [mkPair fmt uid (last ins) out]"
proof -
  have step: "pairs (pairLoop fmt uid (ins @ [out]) s) = pairs s @ [mkPair fmt uid (last ins) out]
      \<and> matched (pairLoop fmt uid (ins @ [out]) s) = matched s @ [(last ins, out)]
      \<and> lastInbound (pairLoop fmt uid (ins @ [out]) s) = None" for s
    using only_ins[OF assms(1,2), of fmt uid s] assms(3)
    by (simp add: pairLoop_append pairLoop_Cons pairLoop_Nil pairStep_fields)
  have "pairs (pairLoop fmt uid (ins @ [out]) initState) = [mkPair fmt uid (last ins) out]"
    using step[of initState] by (simp add: initState_def)
  with step[of "pairLoop fmt uid pre initState"] show ?thesis
    by (simp add: pairLoop_append)
qed

text \<open>
  Claim C9. When no \<open>in\<close> is pending after the events \<open>pre\<close>, an \<open>out\<close> event adds no
  pair and leaves no \<open>in\<close> pending; the three variables of the loop are unchanged by it,
  unless the event is itself of an APB type, which adds its violation record and nothing
  else. The pairs of the whole sequence are those of the sequence without that event.
\<close>

theorem out_without_pending_in_dropped:
  assumes "lastInbound (pairLoop fmt uid pre initState) = None" and "direction ev = ''out''"
  shows "pairs (pairLoop fmt uid (pre @ [ev]) initState) = pairs (pairLoop fmt uid pre initState)
       \<and> lastInbound (pairLoop fmt uid (pre @ [ev]) initState) = None
       \<and> violations (pairLoop fmt uid (pre @ [ev]) initState) =
           violations (pairLoop fmt uid pre initState) @ (if isAPB ev then [mkViolation fmt ev] else [])
       \<and> (\<not> isAPB ev \<longrightarrow> pairLoop fmt uid (pre @ [ev]) initState = pairLoop fmt uid pre initState)
       \<and> pairs (pairLoop fmt uid (pre @ ev # post) initState) =
           pairs (pairLoop fmt uid (pre @ post) initState)"
proof -
  let ?s = "pairLoop fmt uid pre initState"
  have one: "pairLoop fmt uid (pre @ [ev]) initState = pairStep fmt uid ev ?s"
    by (simp add: pairLoop_append pairLoop_Cons pairLoop_Nil)
  have p: "pairs (pairStep fmt uid ev ?s) = pairs ?s"
    and l: "lastInbound (pairStep fmt uid ev ?s) = None"
    and m: "matched (pairStep fmt uid ev ?s) = matched ?s"
    using assms by (simp_all add: pairStep_fields)
  have idle: "\<not> isAPB ev \<longrightarrow> pairStep fmt uid ev ?s = ?s"
    using assms by (simp add: pairStep_out_idle)
  have "pairs (pairLoop fmt uid post (pairStep fmt uid ev ?s)) = pairs (pairLoop fmt uid post ?s)"
    using pairing_ignores_violations[of "pairStep fmt uid ev ?s" ?s fmt uid post] p l m assms(1)
    by simp
  then have rest: "pairs (pairLoop fmt uid (pre @ ev # post) initState) =
           pairs (pairLoop fmt uid (pre @ post) initState)"
    by (simp add: pairLoop_append pairLoop_Cons)
  show ?thesis
    unfolding one using p l idle rest by (simp add: violations_pairStep)
qed

section \<open>The pairing loop on sample events\<close>

text \<open>
  Two \<open>in\<close> events at 09:00 and 09:50 and an \<open>out\<close> at 10:06: one pair, from 09:50.
\<close>

theorem latest_in_wins_witness:
  "direction (sampleEvent ''DOOR_OPENED'' ''in'' ''Inbound'' ''U1'' ''1970-01-01T09:00:00Z'' (Some 32400000)) = ''in''
   \<and> direction (sampleEvent ''DOOR_OPENED'' ''in'' ''Inbound'' ''U1'' ''1970-01-01T09:50:00Z'' (Some 35400000)) = ''in''
   \<and> direction (sampleEvent ''DOOR_OPENED'' ''out'' ''Outbound'' ''U1'' ''1970-01-01T10:06:00Z'' (Some 36360000)) = ''out''
   \<and> pairs (pairLoop sampleFormat ''U1''
        [sampleEvent ''DOOR_OPENED'' ''in'' ''Inbound'' ''U1'' ''1970-01-01T09:00:00Z'' (Some 32400000),
         sampleEvent ''DOOR_OPENED'' ''in'' ''Inbound'' ''U1'' ''1970-01-01T09:50:00Z'' (Some 35400000),
         sampleEvent ''DOOR_OPENED'' ''out'' ''Outbound'' ''U1'' ''1970-01-01T10:06:00Z'' (Some 36360000)]
        initState) =
       [mkPair sampleFormat ''U1''
          (sampleEvent ''DOOR_OPENED'' ''in'' ''Inbound'' ''U1'' ''1970-01-01T09:50:00Z'' (Some 35400000))
          (sampleEvent ''DOOR_OPENED'' ''out'' ''Outbound'' ''U1'' ''1970-01-01T10:06:00Z'' (Some 36360000))]"
  using latest_in_wins[of
      "[sampleEvent ''DOOR_OPENED'' ''in'' ''Inbound'' ''U1'' ''1970-01-01T09:00:00Z'' (Some 32400000),
        sampleEvent ''DOOR_OPENED'' ''in'' ''Inbound'' ''U1'' ''1970-01-01T09:50:00Z'' (Some 35400000)]"
      "sampleEvent ''DOOR_OPENED'' ''out'' ''Outbound'' ''U1'' ''1970-01-01T10:06:00Z'' (Some 36360000)"
      sampleFormat "''U1''" "[]"]
  by (simp add: sampleEvent_fields pairLoop_Nil initState_def)

text \<open>
  An \<open>out\<close> as the first event leaves the initial state as it is.
\<close>

theorem out_without_pending_in_dropped_witness:
  "lastInbound (pairLoop sampleFormat ''U1'' [] initState) = None
   \<and> direction (sampleEvent ''DOOR_OPENED'' ''out'' ''Outbound'' ''U1'' ''1970-01-01T09:00:00Z'' (Some 32400000)) = ''out''
   \<and> pairLoop sampleFormat ''U1''
        [sampleEvent ''DOOR_OPENED'' ''out'' ''Outbound'' ''U1'' ''1970-01-01T09:00:00Z'' (Some 32400000)]
        initState = initState
   \<and> pairs (pairLoop sampleFormat ''U1''
        [sampleEvent ''DOOR_OPENED'' ''out'' ''Outbound'' ''U1'' ''1970-01-01T09:00:00Z'' (Some 32400000),
         sampleEvent ''DOOR_OPENED'' ''in'' ''Inbound'' ''U1'' ''1970-01-01T09:50:00Z'' (Some 35400000)]
        initState) = []"
proof -
  let ?ev = "sampleEvent ''DOOR_OPENED'' ''out'' ''Outbound'' ''U1'' ''1970-01-01T09:00:00Z'' (Some 32400000)"
  let ?next = "sampleEvent ''DOOR_OPENED'' ''in'' ''Inbound'' ''U1'' ''1970-01-01T09:50:00Z'' (Some 35400000)"
  have idle: "lastInbound (pairLoop sampleFormat ''U1'' [] initState) = None"
    by (simp add: pairLoop_Nil initState_def)
  have dir: "direction ?ev = ''out''"
    by (simp add: sampleEvent_fields)
  have plain: "\<not> isAPB ?ev"
    by (simp add: isAPB_def startsWith_def sampleEvent_fields)
  note dropped = out_without_pending_in_dropped[OF idle dir, of "[?next]"]
  from dropped plain
  have same: "pairLoop sampleFormat ''U1'' ([] @ [?ev]) initState = pairLoop sampleFormat ''U1'' [] initState"
    by blast
  from dropped
  have skip: "pairs (pairLoop sampleFormat ''U1'' ([] @ ?ev # [?next]) initState) =
              pairs (pairLoop sampleFormat ''U1'' ([] @ [?next]) initState)"
    by blast
  have none: "pairs (pairLoop sampleFormat ''U1'' [?next] initState) = []"
    by (simp add: pairLoop_Cons pairLoop_Nil pairStep_fields sampleEvent_fields initState_def)
  show ?thesis
    using idle dir same skip none by (simp add: pairLoop_Nil)
qed

text \<open>
  Claim C4 at the input where the code departs from it. An event of type
  \<open>DOOR_APB_DOUBLE_ENTRY\<close> with direction \<open>in\<close> at 09:00, followed by an \<open>out\<close> at 09:50,
  both at the target door and of the same user: the APB event gives its violation record,
  and the loop also takes it as the pending \<open>in\<close> and emits a pair whose in-event it is.
\<close>

theorem apb_entry_is_paired:
  "filtered sampleFromISO sampleDoor ''d1''
     [rawEvent ''DOOR_APB_DOUBLE_ENTRY'' ''d1'' ''in'' ''u1'' ''1970-01-01T09:00:00Z'',
      rawEvent ''DOOR_OPENED'' ''d1'' ''out'' ''u1'' ''1970-01-01T09:50:00Z''] =
     [sampleEvent ''DOOR_APB_DOUBLE_ENTRY'' ''in'' ''Inbound'' ''u1'' ''1970-01-01T09:00:00Z'' (Some 32400000),
      sampleEvent ''DOOR_OPENED'' ''out'' ''Outbound'' ''u1'' ''1970-01-01T09:50:00Z'' (Some 35400000)]
   \<and> isAPB (sampleEvent ''DOOR_APB_DOUBLE_ENTRY'' ''in'' ''Inbound'' ''u1'' ''1970-01-01T09:00:00Z'' (Some 32400000))
   \<and> matched (pairLoop sampleFormat ''u1''
        [sampleEvent ''DOOR_APB_DOUBLE_ENTRY'' ''in'' ''Inbound'' ''u1'' ''1970-01-01T09:00:00Z'' (Some 32400000),
         sampleEvent ''DOOR_OPENED'' ''out'' ''Outbound'' ''u1'' ''1970-01-01T09:50:00Z'' (Some 35400000)]
        initState) =
       [(sampleEvent ''DOOR_APB_DOUBLE_ENTRY'' ''in'' ''Inbound'' ''u1'' ''1970-01-01T09:00:00Z'' (Some 32400000),
         sampleEvent ''DOOR_OPENED'' ''out'' ''Outbound'' ''u1'' ''1970-01-01T09:50:00Z'' (Some 35400000))]
   \<and> map p_in (pairs (pairLoop sampleFormat ''u1''
        [sampleEvent ''DOOR_APB_DOUBLE_ENTRY'' ''in'' ''Inbound'' ''u1'' ''1970-01-01T09:00:00Z'' (Some 32400000),
         sampleEvent ''DOOR_OPENED'' ''out'' ''Outbound'' ''u1'' ''1970-01-01T09:50:00Z'' (Some 35400000)]
        initState)) =
       [\<lparr> date = ''1970-01-01'', time = ''09:00:00'', atLocation = ''Break Room Inbound'' \<rparr>]
   \<and> map v_time (violations (pairLoop sampleFormat ''u1''
        [sampleEvent ''DOOR_APB_DOUBLE_ENTRY'' ''in'' ''Inbound'' ''u1'' ''1970-01-01T09:00:00Z'' (Some 32400000),
         sampleEvent ''DOOR_OPENED'' ''out'' ''Outbound'' ''u1'' ''1970-01-01T09:50:00Z'' (Some 35400000)]
        initState)) = [''09:00:00'']"
proof -
  let ?r1 = "rawEvent ''DOOR_APB_DOUBLE_ENTRY'' ''d1'' ''in'' ''u1'' ''1970-01-01T09:00:00Z''"
  let ?r2 = "rawEvent ''DOOR_OPENED'' ''d1'' ''out'' ''u1'' ''1970-01-01T09:50:00Z''"
  let ?e1 = "sampleEvent ''DOOR_APB_DOUBLE_ENTRY'' ''in'' ''Inbound'' ''u1'' ''1970-01-01T09:00:00Z'' (Some 32400000)"
  let ?e2 = "sampleEvent ''DOOR_OPENED'' ''out'' ''Outbound'' ''u1'' ''1970-01-01T09:50:00Z'' (Some 35400000)"
  have n1: "normalizeEvent sampleFromISO sampleDoor ?r1 = ?e1"
    by (simp add: normalize_rawEvent[OF _ _ normalizeDirection_in] sampleFromISO_def)
  have n2: "normalizeEvent sampleFromISO sampleDoor ?r2 = ?e2"
    by (simp add: normalize_rawEvent[OF _ _ normalizeDirection_out] sampleFromISO_def)
  have apb: "isAPB ?e1"
    by (simp add: isAPB_def startsWith_def sampleEvent_fields)
  have chain: "filterChain sampleFromISO sampleDoor ''d1'' [?r1, ?r2] = [?e1, ?e2]"
    by (simp add: filterChain_def doorMatches_rawEvent n1 n2 directionalOrAPB_def sampleEvent_fields)
  have sorted: "filtered sampleFromISO sampleDoor ''d1'' [?r1, ?r2] = [?e1, ?e2]"
    by (simp add: filtered_def chain jsSort_Cons jsSort_Nil byTimestamp_def toMillis_def jsSub_def
        sampleEvent_fields)
  have m: "matched (pairLoop sampleFormat ''u1'' [?e1, ?e2] initState) = [(?e1, ?e2)]"
    by (simp add: pairLoop_Cons pairLoop_Nil pairStep_fields sampleEvent_fields initState_def)
  have p: "map p_in (pairs (pairLoop sampleFormat ''u1'' [?e1, ?e2] initState)) =
       [\<lparr> date = ''1970-01-01'', time = ''09:00:00'', atLocation = ''Break Room Inbound'' \<rparr>]"
    by (simp add: pairLoop_Cons pairLoop_Nil pairStep_fields sampleEvent_fields initState_def
        mkPair_def toFormat_def sampleFormat_def pad2_def)
  have v: "map v_time (violations (pairLoop sampleFormat ''u1'' [?e1, ?e2] initState)) = [''09:00:00'']"
    by (simp add: violations_pairLoop apb isAPB_def startsWith_def sampleEvent_fields initState_def
        mkViolation_def toFormat_def sampleFormat_def pad2_def)
  from sorted apb m p v show ?thesis by blast
qed

section \<open>Sorting by a key, and the groups of users\<close>
















section \<open>Inclusion and ranking of users\<close>













section \<open>Inclusion and ranking on samples; finite totals\<close>










section \<open>Unparsable timestamps and the default threshold\<close>

lemma ts_normalizeEvent: "ts (normalizeEvent parse d e) = parseTimestamp parse (raw_timestamp e)"
  by (simp add: normalizeEvent_def split: prod.split)

lemma durationMs_invalid:
  "ts first = None \<or> ts second = None \<Longrightarrow> durationMs first second = NaN"
  by (cases "toMillis (ts first)"; cases "toMillis (ts second)")
     (auto simp: durationMs_def toMillis_def jsSub_def)

lemma msToHMM_NaN: "msToHMM NaN = ''NaNm''"
  by (simp add: msToHMM_def)

text \<open>
  Claim C2, as the code has it. Nothing in the chain looks at the validity of \<open>ts\<close>: a raw
  event whose timestamp does not parse is normalized with the invalid \<open>DateTime\<close> and, when
  it is of the target door and directional or APB-typed, it is in \<open>filtered\<close>. Its \<open>toMillis\<close>
  is \<open>NaN\<close>, it is formatted as \<open>Invalid DateTime\<close>, and a pair built with it has the
  duration \<open>NaN\<close> and the label \<open>NaNm\<close>. No error is raised (\<open>breakReport_succeeds\<close>: the
  handler answers with the report whatever the events hold).
\<close>

theorem unparsable_timestamp_kept:
  assumes "e \<in> set rawEvents"
    and "parseTimestamp parse (raw_timestamp e) = None"
    and "doorMatches did e"
    and "directionalOrAPB (normalizeEvent parse d e)"
  shows "normalizeEvent parse d e \<in> set (filtered parse d did rawEvents)
       \<and> ts (normalizeEvent parse d e) = None
       \<and> toMillis (ts (normalizeEvent parse d e)) = NaN
       \<and> toFormat fmt (ts (normalizeEvent parse d e)) pattern = ''Invalid DateTime''
       \<and> durationMs (normalizeEvent parse d e) other = NaN
       \<and> durationMs other (normalizeEvent parse d e) = NaN
       \<and> totalLabel (mkPair fmt uid (normalizeEvent parse d e) other) = ''NaNm''"
proof -
  let ?ev = "normalizeEvent parse d e"
  have kept: "?ev \<in> set (filtered parse d did rawEvents)"
    using assms(1,3,4) by (simp add: filtered_def set_jsSort filterChain_eq)
  have invalid: "ts ?ev = None"
    using assms(2) by (simp add: ts_normalizeEvent)
  have label: "totalLabel (mkPair fmt uid ?ev other) = ''NaNm''"
    by (simp add: mkPair_def durationMs_invalid invalid msToHMM_NaN)
  show ?thesis
    using kept label by (simp add: invalid toMillis_def toFormat_def durationMs_invalid)
qed

lemma sampleDoor_fields:
  "door_id sampleDoor = ''d1''" "name sampleDoor = Some ''Break Room''"
  "site_name sampleDoor = Some ''HQ''" "timezone sampleDoor = Some ''UTC''"
  by (simp_all add: sampleDoor_def)

lemma sampleEnv_fields:
  "getBearerToken (sampleEnv rawEvents) = Some ''token''"
  "fetchDoors (sampleEnv rawEvents) apiToken = Some [sampleDoor]"
  "todayIn (sampleEnv rawEvents) zone = (0, 86399)"
  "fetchAllAccessEvents (sampleEnv rawEvents) startUnix endUnix apiToken = Some rawEvents"
  "fromISO (sampleEnv rawEvents) = sampleFromISO"
  "formatIn (sampleEnv rawEvents) zone = sampleFormat"
  by (simp_all add: sampleEnv_def)

lemma sampleEnv_numbers:
  "stringToNumber (sampleEnv rawEvents) ''Infinity'' = PosInf"
  "stringToNumber (sampleEnv rawEvents) ''30'' = Fin 30"
  by (simp_all add: sampleEnv_def)

lemma breakReport_sample:
  "breakReport (sampleEnv rawEvents) \<lparr> q_door_id = Some ''d1'', q_date = None, q_min_minutes = q \<rparr> =
     Json \<lparr> r_door = \<lparr> b_door_id = ''d1'', b_name = Some ''Break Room'', b_site_name = ''HQ'',
                       b_timezone = ''UTC'' \<rparr>,
            generatedRange = \<lparr> start_unix = 0, end_unix = 86399, tz = ''UTC'' \<rparr>,
            min_minutes = minMinutesOf (stringToNumber (sampleEnv rawEvents)) q,
            users = buildUsers sampleFormat (minMinutesOf (stringToNumber (sampleEnv rawEvents)) q)
                      (filtered sampleFromISO sampleDoor ''d1'' rawEvents) \<rparr>"
  by (simp add: breakReport_def Let_def truthy_def orDefault_def sampleEnv_fields sampleDoor_fields)

lemma breakReport_Json:
  assumes "breakReport env req = Json p"
  shows "\<exists>did apiToken allDoors d startUnix endUnix rawEvents.
      q_door_id req = Some did \<and> did \<noteq> []
      \<and> getBearerToken env = Some apiToken
      \<and> fetchDoors env apiToken = Some allDoors
      \<and> find (\<lambda>d. door_id d = did) allDoors = Some d
      \<and> fetchAllAccessEvents env startUnix endUnix apiToken = Some rawEvents
      \<and> min_minutes p = minMinutesOf (stringToNumber env) (q_min_minutes req)
      \<and> users p = buildUsers (formatIn env (orDefault (timezone d) ''UTC''))
                    (minMinutesOf (stringToNumber env) (q_min_minutes req))
                    (filtered (fromISO env) d did rawEvents)"
proof -
  from assms have t: "truthy (q_door_id req)"
    by (auto simp: breakReport_def split: if_splits)
  then obtain did where did: "q_door_id req = Some did" "did \<noteq> []"
    by (auto simp: truthy_def split: option.splits)
  then have od: "orDefault (q_door_id req) [] = did" by (simp add: orDefault_def)
  from assms t obtain apiToken where tok: "getBearerToken env = Some apiToken"
    by (auto simp: breakReport_def Let_def split: option.splits)
  from assms t tok obtain allDoors where doors: "fetchDoors env apiToken = Some allDoors"
    by (auto simp: breakReport_def Let_def split: option.splits)
  from assms t tok doors obtain d where d: "find (\<lambda>d. door_id d = did) allDoors = Some d"
    by (auto simp: breakReport_def Let_def od split: option.splits)
  let ?zone = "orDefault (timezone d) ''UTC''"
  let ?day = "if truthy (q_date req) then dayFromISO env (orDefault (q_date req) []) ?zone
              else Some (todayIn env ?zone)"
  from assms t tok doors d obtain startUnix endUnix where day: "?day = Some (startUnix, endUnix)"
    by (cases ?day) (auto simp: breakReport_def Let_def od)
  from assms t tok doors d day obtain rawEvents
    where evs: "fetchAllAccessEvents env startUnix endUnix apiToken = Some rawEvents"
    by (cases "fetchAllAccessEvents env startUnix endUnix apiToken")
       (auto simp: breakReport_def Let_def od)
  from assms t tok doors d day evs
  have "p = \<lparr> r_door = \<lparr> b_door_id = door_id d, b_name = name d,
                         b_site_name = orDefault (site_name d) ''Unknown Site'',
                         b_timezone = ?zone \<rparr>,
              generatedRange = \<lparr> start_unix = startUnix, end_unix = endUnix, tz = ?zone \<rparr>,
              min_minutes = minMinutesOf (stringToNumber env) (q_min_minutes req),
              users = buildUsers (formatIn env ?zone)
                        (minMinutesOf (stringToNumber env) (q_min_minutes req))
                        (filtered (fromISO env) d did rawEvents) \<rparr>"
    by (simp add: breakReport_def Let_def od)
  then have "min_minutes p = minMinutesOf (stringToNumber env) (q_min_minutes req)"
    and "users p = buildUsers (formatIn env ?zone)
                        (minMinutesOf (stringToNumber env) (q_min_minutes req))
                        (filtered (fromISO env) d did rawEvents)"
    by simp_all
  with did tok doors d evs show ?thesis by blast
qed

lemma minMinutesOf_default:
  "\<not> isFinite (Number toNum q) \<Longrightarrow> minMinutesOf toNum q = Fin 45"
  by (simp add: minMinutesOf_def)

lemma minMinutesOf_finite: "isFinite (minMinutesOf toNum q)"
  by (simp add: minMinutesOf_def)

text \<open>
  Claim C10. When \<open>min_minutes\<close> is absent, or is a string that \<open>Number\<close> does not convert
  to a finite number, the threshold is 45: every report the handler answers with has
  \<open>min_minutes = 45\<close>, and its users are computed with the threshold 45 from the events
  fetched for the door.
\<close>

theorem default_threshold_45:
  assumes "q_min_minutes req = None
           \<or> (\<exists>s. q_min_minutes req = Some s \<and> \<not> isFinite (stringToNumber env s))"
    and "breakReport env req = Json p"
  shows "minMinutesOf (stringToNumber env) (q_min_minutes req) = Fin 45
       \<and> min_minutes p = Fin 45
       \<and> (\<exists>did apiToken allDoors d startUnix endUnix rawEvents.
            q_door_id req = Some did
            \<and> getBearerToken env = Some apiToken
            \<and> fetchDoors env apiToken = Some allDoors
            \<and> find (\<lambda>d. door_id d = did) allDoors = Some d
            \<and> fetchAllAccessEvents env startUnix endUnix apiToken = Some rawEvents
            \<and> users p = buildUsers (formatIn env (orDefault (timezone d) ''UTC'')) (Fin 45)
                          (filtered (fromISO env) d did rawEvents))"
proof -
  have "\<not> isFinite (Number (stringToNumber env) (q_min_minutes req))"
    using assms(1) by (auto simp: Number_def)
  then have default: "minMinutesOf (stringToNumber env) (q_min_minutes req) = Fin 45"
    by (rule minMinutesOf_default)
  from breakReport_Json[OF assms(2)] show ?thesis
    unfolding default using default by blast
qed

text \<open>
  With \<open>min_minutes=Infinity\<close> and with no \<open>min_minutes\<close> the sample handler answers with a
  report whose \<open>min_minutes\<close> is 45.
\<close>

theorem default_threshold_45_witness:
  "(\<exists>s. q_min_minutes \<lparr> q_door_id = Some ''d1'', q_date = None, q_min_minutes = Some ''Infinity'' \<rparr> = Some s
        \<and> \<not> isFinite (stringToNumber (sampleEnv []) s))
   \<and> (\<exists>p. breakReport (sampleEnv []) \<lparr> q_door_id = Some ''d1'', q_date = None, q_min_minutes = Some ''Infinity'' \<rparr> = Json p
        \<and> min_minutes p = Fin 45)
   \<and> (\<exists>p. breakReport (sampleEnv []) \<lparr> q_door_id = Some ''d1'', q_date = None, q_min_minutes = None \<rparr> = Json p
        \<and> min_minutes p = Fin 45)"
proof -
  let ?inf = "\<lparr> q_door_id = Some ''d1'', q_date = None, q_min_minutes = Some ''Infinity'' \<rparr>"
  let ?none = "\<lparr> q_door_id = Some ''d1'', q_date = None, q_min_minutes = None \<rparr>"
  have bad: "\<exists>s. q_min_minutes ?inf = Some s \<and> \<not> isFinite (stringToNumber (sampleEnv []) s)"
    by (simp add: sampleEnv_numbers)
  obtain p where p: "breakReport (sampleEnv []) ?inf = Json p"
    using breakReport_sample[of "[]" "Some ''Infinity''"] by blast
  obtain p' where p': "breakReport (sampleEnv []) ?none = Json p'"
    using breakReport_sample[of "[]" None] by blast
  have "min_minutes p = Fin 45"
    using default_threshold_45[OF _ p] bad by blast
  moreover have "min_minutes p' = Fin 45"
    using default_threshold_45[OF _ p'] by simp
  ultimately show ?thesis using bad p p' by blast
qed

section \<open>The handler on sample requests\<close>

lemma breakReport_succeeds:
  assumes "q_door_id req = Some did" "did \<noteq> []"
    and "getBearerToken env = Some apiToken"
    and "fetchDoors env apiToken = Some allDoors"
    and "find (\<lambda>d. door_id d = did) allDoors = Some d"
    and "(if truthy (q_date req)
          then dayFromISO env (orDefault (q_date req) []) (orDefault (timezone d) ''UTC'')
          else Some (todayIn env (orDefault (timezone d) ''UTC''))) = Some (startUnix, endUnix)"
    and "fetchAllAccessEvents env startUnix endUnix apiToken = Some rawEvents"
  shows "\<exists>p. breakReport env req = Json p"
proof -
  have od: "orDefault (q_door_id req) [] = did" and t: "truthy (q_door_id req)"
    using assms(1,2) by (simp_all add: orDefault_def truthy_def)
  show ?thesis
    using assms(3-7) by (simp add: breakReport_def Let_def od t)
qed

text \<open>
  An APB event of door \<open>d1\<close> with the timestamp \<open>yesterday\<close> stays in the filtered list.
\<close>

theorem unparsable_timestamp_kept_witness:
  "rawEvent ''DOOR_APB_DOUBLE_ENTRY'' ''d1'' ''in'' ''u1'' ''yesterday''
     \<in> set [rawEvent ''DOOR_APB_DOUBLE_ENTRY'' ''d1'' ''in'' ''u1'' ''yesterday'',
            rawEvent ''DOOR_OPENED'' ''d1'' ''out'' ''u1'' ''1970-01-01T09:50:00Z'']
   \<and> parseTimestamp sampleFromISO
        (raw_timestamp (rawEvent ''DOOR_APB_DOUBLE_ENTRY'' ''d1'' ''in'' ''u1'' ''yesterday'')) = None
   \<and> doorMatches ''d1'' (rawEvent ''DOOR_APB_DOUBLE_ENTRY'' ''d1'' ''in'' ''u1'' ''yesterday'')
   \<and> directionalOrAPB (normalizeEvent sampleFromISO sampleDoor
        (rawEvent ''DOOR_APB_DOUBLE_ENTRY'' ''d1'' ''in'' ''u1'' ''yesterday''))
   \<and> sampleEvent ''DOOR_APB_DOUBLE_ENTRY'' ''in'' ''Inbound'' ''u1'' ''yesterday'' None
       \<in> set (filtered sampleFromISO sampleDoor ''d1''
           [rawEvent ''DOOR_APB_DOUBLE_ENTRY'' ''d1'' ''in'' ''u1'' ''yesterday'',
            rawEvent ''DOOR_OPENED'' ''d1'' ''out'' ''u1'' ''1970-01-01T09:50:00Z''])"
proof -
  let ?bad = "rawEvent ''DOOR_APB_DOUBLE_ENTRY'' ''d1'' ''in'' ''u1'' ''yesterday''"
  let ?good = "rawEvent ''DOOR_OPENED'' ''d1'' ''out'' ''u1'' ''1970-01-01T09:50:00Z''"
  have n: "normalizeEvent sampleFromISO sampleDoor ?bad =
      sampleEvent ''DOOR_APB_DOUBLE_ENTRY'' ''in'' ''Inbound'' ''u1'' ''yesterday'' None"
    by (simp add: normalize_rawEvent[OF _ _ normalizeDirection_in] sampleFromISO_def)
  have a: "?bad \<in> set [?bad, ?good]" by simp
  have b: "parseTimestamp sampleFromISO (raw_timestamp ?bad) = None"
    by (simp add: parseTimestamp_def rawEvent_def sampleFromISO_def)
  have c: "doorMatches ''d1'' ?bad" by (simp add: doorMatches_rawEvent)
  have d: "directionalOrAPB (normalizeEvent sampleFromISO sampleDoor ?bad)"
    by (simp add: n directionalOrAPB_def sampleEvent_fields)
  have "normalizeEvent sampleFromISO sampleDoor ?bad
      \<in> set (filtered sampleFromISO sampleDoor ''d1'' [?bad, ?good])"
    using unparsable_timestamp_kept[OF a b c d] by blast
  with a b c d show ?thesis by (simp only: n)
qed

lemma filtered_bad_good:
  "filtered sampleFromISO sampleDoor ''d1''
     [rawEvent ''DOOR_APB_DOUBLE_ENTRY'' ''d1'' ''in'' ''u1'' ''yesterday'',
      rawEvent ''DOOR_OPENED'' ''d1'' ''out'' ''u1'' ''1970-01-01T09:50:00Z''] =
   [sampleEvent ''DOOR_APB_DOUBLE_ENTRY'' ''in'' ''Inbound'' ''u1'' ''yesterday'' None,
    sampleEvent ''DOOR_OPENED'' ''out'' ''Outbound'' ''u1'' ''1970-01-01T09:50:00Z'' (Some 35400000)]"
proof -
  let ?bad = "rawEvent ''DOOR_APB_DOUBLE_ENTRY'' ''d1'' ''in'' ''u1'' ''yesterday''"
  let ?good = "rawEvent ''DOOR_OPENED'' ''d1'' ''out'' ''u1'' ''1970-01-01T09:50:00Z''"
  have n1: "normalizeEvent sampleFromISO sampleDoor ?bad =
      sampleEvent ''DOOR_APB_DOUBLE_ENTRY'' ''in'' ''Inbound'' ''u1'' ''yesterday'' None"
    by (simp add: normalize_rawEvent[OF _ _ normalizeDirection_in] sampleFromISO_def)
  have n2: "normalizeEvent sampleFromISO sampleDoor ?good =
      sampleEvent ''DOOR_OPENED'' ''out'' ''Outbound'' ''u1'' ''1970-01-01T09:50:00Z'' (Some 35400000)"
    by (simp add: normalize_rawEvent[OF _ _ normalizeDirection_out] sampleFromISO_def)
  have chain: "filterChain sampleFromISO sampleDoor ''d1'' [?bad, ?good] =
      [sampleEvent ''DOOR_APB_DOUBLE_ENTRY'' ''in'' ''Inbound'' ''u1'' ''yesterday'' None,
       sampleEvent ''DOOR_OPENED'' ''out'' ''Outbound'' ''u1'' ''1970-01-01T09:50:00Z'' (Some 35400000)]"
    by (simp add: filterChain_def doorMatches_rawEvent n1 n2 directionalOrAPB_def sampleEvent_fields)
  show ?thesis
    by (simp add: filtered_def chain jsSort_Cons jsSort_Nil byTimestamp_def toMillis_def jsSub_def
        sampleEvent_fields)
qed

lemma users_bad_good:
  "buildUsers sampleFormat (Fin 45)
     [sampleEvent ''DOOR_APB_DOUBLE_ENTRY'' ''in'' ''Inbound'' ''u1'' ''yesterday'' None,
      sampleEvent ''DOOR_OPENED'' ''out'' ''Outbound'' ''u1'' ''1970-01-01T09:50:00Z'' (Some 35400000)] =
   [\<lparr> u_userId = ''u1'', u_userName = ''Unknown User'', u_siteName = ''HQ'',
       u_totalMs = NaN, u_totalLabel = ''NaNm'',
       u_pairs =
         [\<lparr> p_userId = ''u1'', p_userName = ''Unknown User'', p_siteName = ''HQ'',
             area = ''Break Room'',
             p_in = \<lparr> date = ''Invalid DateTime'', time = ''Invalid DateTime'',
                      atLocation = ''Break Room Inbound'' \<rparr>,
             p_out = \<lparr> date = ''1970-01-01'', time = ''09:50:00'',
                       atLocation = ''Break Room Outbound'' \<rparr>,
             totalMs = NaN, totalLabel = ''NaNm'' \<rparr>],
       u_violations =
         [\<lparr> v_date = ''Invalid DateTime'', v_time = ''Invalid DateTime'',
             v_message = ''DOUBLE ENTRY'', v_event_type = ''DOOR_APB_DOUBLE_ENTRY'' \<rparr>] \<rparr>]"
proof -
  let ?e1 = "sampleEvent ''DOOR_APB_DOUBLE_ENTRY'' ''in'' ''Inbound'' ''u1'' ''yesterday'' None"
  let ?e2 = "sampleEvent ''DOOR_OPENED'' ''out'' ''Outbound'' ''u1'' ''1970-01-01T09:50:00Z'' (Some 35400000)"
  have g: "groupByUser [?e1, ?e2] = [(''u1'', [?e1, ?e2])]"
    by (simp add: groupByUser_def sampleEvent_fields)
  have apb: "isAPB ?e1" "\<not> isAPB ?e2"
    by (simp_all add: isAPB_def startsWith_def sampleEvent_fields)
  have p: "pairs (pairLoop sampleFormat ''u1'' [?e1, ?e2] initState) =
      [mkPair sampleFormat ''u1'' ?e1 ?e2]"
    by (simp add: pairLoop_Cons pairLoop_Nil pairStep_fields sampleEvent_fields initState_def)
  have v: "violations (pairLoop sampleFormat ''u1'' [?e1, ?e2] initState) =
      [mkViolation sampleFormat ?e1]"
    by (simp add: violations_pairLoop apb initState_def)
  have mp: "mkPair sampleFormat ''u1'' ?e1 ?e2 =
      \<lparr> p_userId = ''u1'', p_userName = ''Unknown User'', p_siteName = ''HQ'',
             area = ''Break Room'',
             p_in = \<lparr> date = ''Invalid DateTime'', time = ''Invalid DateTime'',
                      atLocation = ''Break Room Inbound'' \<rparr>,
             p_out = \<lparr> date = ''1970-01-01'', time = ''09:50:00'',
                       atLocation = ''Break Room Outbound'' \<rparr>,
             totalMs = NaN, totalLabel = ''NaNm'' \<rparr>"
    by (simp add: mkPair_def sampleEvent_fields orDefault_def toFormat_def sampleFormat_def pad2_def
        durationMs_invalid msToHMM_NaN)
  have mv: "mkViolation sampleFormat ?e1 =
      \<lparr> v_date = ''Invalid DateTime'', v_time = ''Invalid DateTime'',
             v_message = ''DOUBLE ENTRY'', v_event_type = ''DOOR_APB_DOUBLE_ENTRY'' \<rparr>"
    by (simp add: mkViolation_def sampleEvent_fields orDefault_def toFormat_def
        underscoresToSpaces_def)
  have r: "userReport sampleFormat (Fin 45) (''u1'', [?e1, ?e2]) =
      Some \<lparr> u_userId = ''u1'', u_userName = ''Unknown User'', u_siteName = ''HQ'',
       u_totalMs = NaN, u_totalLabel = ''NaNm'',
       u_pairs = [mkPair sampleFormat ''u1'' ?e1 ?e2],
       u_violations = [mkViolation sampleFormat ?e1] \<rparr>"
    by (simp add: userReport_def Let_def p v included_def sumTotalMs_def mp firstOf_def
        orDefault_def jsOr_def truthy_def msToHMM_NaN)
  show ?thesis
    by (simp add: buildUsers_def buildResults_def g List.map_filter_simps r jsSort_Cons jsSort_Nil mp mv)
qed

text \<open>
  Claim C2 as stated fails: the event with the timestamp \<open>yesterday\<close> is not dropped. The
  handler answers with a report in which that event gives a violation record and is the
  in-event of a pair, and its user is listed with the total \<open>NaN\<close>.
\<close>

theorem unparsable_timestamp_counterexample:
  "parseTimestamp sampleFromISO
     (raw_timestamp (rawEvent ''DOOR_APB_DOUBLE_ENTRY'' ''d1'' ''in'' ''u1'' ''yesterday'')) = None
   \<and> breakReport
       (sampleEnv [rawEvent ''DOOR_APB_DOUBLE_ENTRY'' ''d1'' ''in'' ''u1'' ''yesterday'',
                   rawEvent ''DOOR_OPENED'' ''d1'' ''out'' ''u1'' ''1970-01-01T09:50:00Z''])
       \<lparr> q_door_id = Some ''d1'', q_date = None, q_min_minutes = None \<rparr> =
     Json \<lparr> r_door = \<lparr> b_door_id = ''d1'', b_name = Some ''Break Room'', b_site_name = ''HQ'',
                       b_timezone = ''UTC'' \<rparr>,
            generatedRange = \<lparr> start_unix = 0, end_unix = 86399, tz = ''UTC'' \<rparr>,
            min_minutes = Fin 45,
            users =
              [\<lparr> u_userId = ''u1'', u_userName = ''Unknown User'', u_siteName = ''HQ'',
                  u_totalMs = NaN, u_totalLabel = ''NaNm'',
                  u_pairs =
                    [\<lparr> p_userId = ''u1'', p_userName = ''Unknown User'', p_siteName = ''HQ'',
                        area = ''Break Room'',
                        p_in = \<lparr> date = ''Invalid DateTime'', time = ''Invalid DateTime'',
                                 atLocation = ''Break Room Inbound'' \<rparr>,
                        p_out = \<lparr> date = ''1970-01-01'', time = ''09:50:00'',
                                  atLocation = ''Break Room Outbound'' \<rparr>,
                        totalMs = NaN, totalLabel = ''NaNm'' \<rparr>],
                  u_violations =
                    [\<lparr> v_date = ''Invalid DateTime'', v_time = ''Invalid DateTime'',
                        v_message = ''DOUBLE ENTRY'',
                        v_event_type = ''DOOR_APB_DOUBLE_ENTRY'' \<rparr>] \<rparr>] \<rparr>"
proof -
  have "parseTimestamp sampleFromISO
     (raw_timestamp (rawEvent ''DOOR_APB_DOUBLE_ENTRY'' ''d1'' ''in'' ''u1'' ''yesterday'')) = None"
    by (simp add: parseTimestamp_def rawEvent_def sampleFromISO_def)
  moreover have "minMinutesOf (stringToNumber (sampleEnv rawEvents)) None = Fin 45" for rawEvents
    by (simp add: minMinutesOf_def Number_def)
  ultimately show ?thesis
    by (simp only: breakReport_sample filtered_bad_good users_bad_good simp_thms)
qed

end
